theory Spec2Isabelle
  imports Complex_Main
begin

section \<open>Strings as the reader uses them\<close>

text \<open>
  JavaScript strings are modelled as \<open>string\<close> (a list of 8-bit characters) and JavaScript
  numbers as \<open>int\<close> where the source only ever holds integers (indices, counts, pixel
  sizes) and as rationals otherwise (progress fractions, line height): the rational is the
  exact value of the finite double that the number is.
\<close>

definition isWhiteSpace :: "char \<Rightarrow> bool" where
  "isWhiteSpace c = (c \<in> set [CHR 0x09, CHR 0x0A, CHR 0x0B, CHR 0x0C, CHR 0x0D, CHR 0x20, CHR 0xA0])"

text \<open>
  \<open>String.prototype.trim\<close>: white space removed at both ends (the white space characters
  that an 8-bit character can be).
\<close>

definition trim :: "string \<Rightarrow> string" where
  "trim s = rev (dropWhile isWhiteSpace (rev (dropWhile isWhiteSpace s)))"

definition digitChar :: "nat \<Rightarrow> char" where
  "digitChar d = ''0123456789'' ! d"

text \<open>Decimal rendering of a number inside a template literal.\<close>

fun showNat :: "nat \<Rightarrow> string" where
  "showNat n = (if n < 10 then [digitChar n] else showNat (n div 10) @ [digitChar (n mod 10)])"

definition showInt :: "int \<Rightarrow> string" where
  "showInt i = (if i < 0 then CHR ''-'' # showNat (nat (- i)) else showNat (nat i))"

section \<open>Double precision\<close>

text \<open>
  A JavaScript product is the exact product rounded to the nearest double, ties to the even
  significand (IEEE 754 binary64: 53 significant bits, least exponent \<open>-1022\<close>, gradual
  underflow). \<open>None\<close> stands for an infinity, which the rounding gives from \<open>2 ^ 1024\<close> on.
\<close>

definition pow2 :: "int \<Rightarrow> rat" where
  "pow2 e = (if 0 \<le> e then 2 ^ nat e else 1 / 2 ^ nat (- e))"

text \<open>The number of binary digits of a positive integer.\<close>

function bitLength :: "int \<Rightarrow> int" where
  "bitLength n = (if n \<le> 0 then 0 else 1 + bitLength (n div 2))"
  by pat_completeness auto
termination
  by (relation "measure nat") auto

text \<open>For positive \<open>a\<close>, the exponent \<open>e\<close> with \<open>2 ^ e \<le> a < 2 ^ (e + 1)\<close>.\<close>

definition floorLog2 :: "rat \<Rightarrow> int" where
  "floorLog2 a =
     (let e0 = bitLength (fst (quotient_of a)) - bitLength (snd (quotient_of a))
      in if pow2 e0 \<le> a then e0 else e0 - 1)"

definition roundHalfEven :: "rat \<Rightarrow> int" where
  "roundHalfEven q =
     (let f = \<lfloor>q\<rfloor>; d = q - of_int f
      in if d < 1 / 2 then f else if 1 / 2 < d then f + 1 else if even f then f else f + 1)"

definition roundDouble :: "rat \<Rightarrow> rat option" where
  "roundDouble x =
     (if x = 0 then Some 0
      else let a = \<bar>x\<bar>;
               ulp = pow2 (max (floorLog2 a) (- 1022) - 52);
               r = of_int (roundHalfEven (a / ulp)) * ulp
           in if pow2 1024 \<le> r then None else Some (sgn x * r))"

text \<open>\<open>x * y\<close> for two doubles.\<close>

definition jsTimes :: "rat \<Rightarrow> rat \<Rightarrow> rat option" where
  "jsTimes x y = roundDouble (x * y)"

section \<open>DOM trees\<close>

text \<open>
  The DOM that the browser builds from markup: an element carries its tag name, its
  attributes in order and its children; a text node carries its character data (character
  references decoded). Parsing markup and laying it out are the browser's work and are parameters of the
  model (record \<open>browser\<close> below); serialising, selecting and removing are defined here.
\<close>

datatype node = Element string "(string \<times> string) list" "node list" | TextNode string

fun isElement :: "node \<Rightarrow> bool" where
  "isElement (Element t a cs) = True"
| "isElement (TextNode s) = False"

fun tagName :: "node \<Rightarrow> string" where
  "tagName (Element t a cs) = t"
| "tagName (TextNode s) = []"

fun childNodes :: "node \<Rightarrow> node list" where
  "childNodes (Element t a cs) = cs"
| "childNodes (TextNode s) = []"

fun getAttribute :: "node \<Rightarrow> string \<Rightarrow> string option" where
  "getAttribute (Element t a cs) name = map_of a name"
| "getAttribute (TextNode s) name = None"

definition voidTags :: "string list" where
  "voidTags = [''area'', ''base'', ''br'', ''col'', ''embed'', ''hr'', ''img'', ''input'',
               ''link'', ''meta'', ''source'', ''track'', ''wbr'']"

text \<open>
  Serialising escapes the characters that markup gives a meaning to: in text \<open>&\<close>, the
  no-break space, \<open><\<close> and \<open>>\<close>; in attribute values \<open>&\<close>, the no-break space and the
  double quote. The text inside the raw text elements is written as it is.
\<close>

definition escapeText :: "string \<Rightarrow> string" where
  "escapeText s =
     concat (map (\<lambda>c. if c = CHR ''&'' then ''&amp;'' else if c = CHR 0xA0 then ''&nbsp;''
                       else if c = CHR ''<'' then ''&lt;'' else if c = CHR ''>'' then ''&gt;''
                       else [c]) s)"

definition escapeAttr :: "string \<Rightarrow> string" where
  "escapeAttr s =
     concat (map (\<lambda>c. if c = CHR ''&'' then ''&amp;'' else if c = CHR 0xA0 then ''&nbsp;''
                       else if c = CHR 0x22 then ''&quot;'' else [c]) s)"

definition rawTextTags :: "string list" where
  "rawTextTags = [''style'', ''script'', ''xmp'', ''iframe'', ''noembed'', ''noframes'',
                  ''plaintext'']"

definition attrMarkup :: "string \<times> string \<Rightarrow> string" where
  "attrMarkup kv = '' '' @ fst kv @ ''=\"'' @ escapeAttr (snd kv) @ ''\"''"

fun textData :: "node \<Rightarrow> string" where
  "textData (Element t a cs) = []"
| "textData (TextNode s) = s"

text \<open>\<open>outerHTML\<close>: the element's own tags around the markup of its children.\<close>

fun outerHTML :: "node \<Rightarrow> string" where
  "outerHTML (Element t a cs) =
     (if t \<in> set voidTags then ''<'' @ t @ concat (map attrMarkup a) @ ''>''
      else ''<'' @ t @ concat (map attrMarkup a) @ ''>''
           @ concat (map (\<lambda>c. if t \<in> set rawTextTags \<and> \<not> isElement c then textData c
                                else outerHTML c) cs)
           @ ''</'' @ t @ ''>'')"
| "outerHTML (TextNode s) = escapeText s"

definition innerHTML :: "node \<Rightarrow> string" where
  "innerHTML n =
     concat (map (\<lambda>c. if tagName n \<in> set rawTextTags \<and> \<not> isElement c then textData c
                       else outerHTML c) (childNodes n))"

fun textContent :: "node \<Rightarrow> string" where
  "textContent (Element t a cs) = concat (map textContent cs)"
| "textContent (TextNode s) = s"

text \<open>The elements of a subtree in document order, the root first.\<close>

fun elementsOf :: "node \<Rightarrow> node list" where
  "elementsOf (Element t a cs) = Element t a cs # concat (map elementsOf cs)"
| "elementsOf (TextNode s) = []"

definition descendantElements :: "node \<Rightarrow> node list" where
  "descendantElements n = concat (map elementsOf (childNodes n))"

text \<open>
  \<open>querySelectorAll\<close> with a comma-separated list of type selectors: the descendant
  elements whose tag is in the list, in document order. \<open>querySelector\<close> is the first.
\<close>

definition querySelectorAll :: "string list \<Rightarrow> node \<Rightarrow> node list" where
  "querySelectorAll tags n = filter (\<lambda>e. tagName e \<in> set tags) (descendantElements n)"

definition querySelector :: "string list \<Rightarrow> node \<Rightarrow> node option" where
  "querySelector tags n = (case querySelectorAll tags n of [] \<Rightarrow> None | e # es \<Rightarrow> Some e)"

text \<open>
  \<open>doc.querySelectorAll(sel).forEach(el => el.remove())\<close>: every element with a listed
  tag is taken out of the tree, with all it contains.
\<close>

fun removeTags :: "string list \<Rightarrow> node \<Rightarrow> node" where
  "removeTags tags (Element t a cs) =
     Element t a (concat (map (\<lambda>c. if isElement c \<and> tagName c \<in> set tags then []
                                     else [removeTags tags c]) cs))"
| "removeTags tags (TextNode s) = TextNode s"

text \<open>
  A descendant combinator \<open>anc tg\<close>: the elements with tag \<open>tg\<close> that lie inside an
  element with tag \<open>anc\<close>, in document order.
\<close>

fun selectInside :: "string \<Rightarrow> string \<Rightarrow> bool \<Rightarrow> node \<Rightarrow> node list" where
  "selectInside anc tg inside (Element t a cs) =
     (if inside \<and> t = tg then [Element t a cs] else [])
     @ concat (map (selectInside anc tg (inside \<or> t = anc)) cs)"
| "selectInside anc tg inside (TextNode s) = []"

section \<open>The browser\<close>

datatype theme = light | dark | sepia

record TextSettings =
  fontSize :: int
  fontFamily :: string
  lineHeight :: rat
  margin :: int
  theme :: theme

text \<open>The style given to the off-screen measuring container (lines 113--121).\<close>

record measureBox =
  boxWidth :: int
  boxFontSize :: int
  boxFontFamily :: string
  boxLineHeight :: rat

text \<open>
  What the reader asks of the browser: the window size, the fragment parser behind the
  \<open>innerHTML\<close> setter, the document parser behind \<open>DOMParser.parseFromString\<close>, and the
  \<open>scrollHeight\<close> of the measuring container once markup has been put into it.
\<close>

record browser =
  innerWidth :: int
  innerHeight :: int
  parseFragment :: "string \<Rightarrow> node list"
  parseDocument :: "string \<Rightarrow> node list"
  scrollHeight :: "measureBox \<Rightarrow> string \<Rightarrow> int"

section \<open>Pagination: \<open>splitIntoPages\<close>\<close>

record EpubChapter =
  ch_id :: string
  ch_title :: string
  ch_content :: string
  ch_href :: string

record EpubPage =
  pg_id :: string
  pg_content :: string
  chapterTitle :: string
  pageNumber :: int

definition blockTags :: "string list" where
  "blockTags = [''p'', ''div'', ''h1'', ''h2'', ''h3'', ''h4'', ''h5'', ''h6'',
                ''blockquote'', ''pre'', ''li'']"

definition tempContainer :: "browser \<Rightarrow> TextSettings \<Rightarrow> measureBox" where
  "tempContainer env settings =
     \<lparr>boxWidth = innerWidth env - margin settings * 2, boxFontSize = fontSize settings,
      boxFontFamily = fontFamily settings, boxLineHeight = lineHeight settings\<rparr>"

text \<open>\<open>Math.floor((window.innerHeight - 240) * 0.92)\<close>\<close>

definition pageHeight :: "browser \<Rightarrow> int" where
  "pageHeight env = \<lfloor>(of_int (innerHeight env - 240) :: rat) * (92 / 100)\<rfloor>"

text \<open>The wrapper \<open>div\<close> that receives the chapter's markup (lines 129--130).\<close>

definition tempDiv :: "browser \<Rightarrow> EpubChapter \<Rightarrow> node" where
  "tempDiv env chapter = Element ''div'' [] (parseFragment env (ch_content chapter))"

text \<open>Lines 133--136: the selected blocks, or the wrapper itself when there are none.\<close>

definition chapterElements :: "browser \<Rightarrow> EpubChapter \<Rightarrow> node list" where
  "chapterElements env chapter =
     (let elements = querySelectorAll blockTags (tempDiv env chapter)
      in if length elements = 0 then elements @ [tempDiv env chapter] else elements)"

text \<open>\<open>element.outerHTML || element.textContent || ''\<close>\<close>

definition elementHtml :: "node \<Rightarrow> string" where
  "elementHtml element =
     (if outerHTML element \<noteq> [] then outerHTML element
      else if textContent element \<noteq> [] then textContent element else [])"

definition mkPage :: "EpubPage list \<Rightarrow> string \<Rightarrow> EpubChapter \<Rightarrow> int \<Rightarrow> EpubPage" where
  "mkPage pages currentPageContent chapter n =
     \<lparr>pg_id = ''page-'' @ showNat (length pages + 1), pg_content = currentPageContent,
      chapterTitle = ch_title chapter, pageNumber = n\<rparr>"

text \<open>
  The body of the inner \<open>forEach\<close> (lines 141--156). The loop state is the page array, the
  accumulator \<open>currentPageContent\<close> and the chapter-local \<open>pageNumber\<close>.
\<close>

definition elementStep ::
  "browser \<Rightarrow> TextSettings \<Rightarrow> EpubChapter \<Rightarrow> node \<Rightarrow> EpubPage list \<times> string \<times> int
     \<Rightarrow> EpubPage list \<times> string \<times> int" where
  "elementStep env settings chapter element st =
     (case st of (pages, currentPageContent, n) \<Rightarrow>
        if scrollHeight env (tempContainer env settings) (currentPageContent @ elementHtml element)
             > pageHeight env \<and> trim currentPageContent \<noteq> []
        then (pages @ [mkPage pages currentPageContent chapter n], elementHtml element, n + 1)
        else (pages, currentPageContent @ elementHtml element, n))"

text \<open>The body of the outer \<open>forEach\<close> (lines 127--167), with the final flush.\<close>

definition chapterStep ::
  "browser \<Rightarrow> TextSettings \<Rightarrow> EpubChapter \<Rightarrow> EpubPage list \<Rightarrow> EpubPage list" where
  "chapterStep env settings chapter pages =
     (case fold (elementStep env settings chapter) (chapterElements env chapter) (pages, [], 1) of
        (pages', currentPageContent, n) \<Rightarrow>
          if trim currentPageContent \<noteq> []
          then pages' @ [mkPage pages' currentPageContent chapter n]
          else pages')"

definition splitIntoPages :: "browser \<Rightarrow> EpubChapter list \<Rightarrow> TextSettings \<Rightarrow> EpubPage list" where
  "splitIntoPages env chapters settings = fold (chapterStep env settings) chapters []"

section \<open>Chapter extraction: \<open>parseEpub\<close>\<close>

text \<open>
  The archive after \<open>JSZip.loadAsync\<close>: \<open>epub.file(path)\<close> is \<open>None\<close> for a missing
  entry; reading an entry as text either resolves with its text or rejects with a message.
\<close>

datatype zipEntry = Readable string | Unreadable string

type_synonym zip = "string \<Rightarrow> zipEntry option"

record EpubMetadata =
  md_title :: string
  md_author :: string
  md_language :: string

text \<open>\<open>x?.textContent || fallback\<close>\<close>

definition textOr :: "node option \<Rightarrow> string \<Rightarrow> string" where
  "textOr el fallback =
     (case el of None \<Rightarrow> fallback
      | Some e \<Rightarrow> if textContent e \<noteq> [] then textContent e else fallback)"

text \<open>\<open>opfPath.substring(0, opfPath.lastIndexOf('/') + 1)\<close>\<close>

definition basePathOf :: "string \<Rightarrow> string" where
  "basePathOf opfPath = rev (dropWhile (\<lambda>c. c \<noteq> CHR ''/'') (rev opfPath))"

text \<open>Lines 293--313: a chapter built from the text of its content document.\<close>

definition buildChapter ::
  "browser \<Rightarrow> string option \<Rightarrow> string \<Rightarrow> string \<Rightarrow> EpubChapter list \<Rightarrow> EpubChapter" where
  "buildChapter env idref fullPath chapterContent epubChapters =
     (let doc = removeTags [''script'', ''style'', ''meta'', ''link'']
                  (Element ''#document'' [] (parseDocument env chapterContent));
          title = textOr (querySelector [''title'', ''h1'', ''h2''] doc)
                    (''Chapter '' @ showNat (length epubChapters + 1));
          content = (case querySelector [''body''] doc of
                       Some bodyElement \<Rightarrow> innerHTML bodyElement
                     | None \<Rightarrow> chapterContent)
      in \<lparr>ch_id = (case idref of
                     Some i \<Rightarrow> if i \<noteq> [] then i else ''chapter-'' @ showNat (length epubChapters)
                   | None \<Rightarrow> ''chapter-'' @ showNat (length epubChapters)),
          ch_title = trim title, ch_content = content, ch_href = fullPath\<rparr>)"

text \<open>
  The body of the spine loop (lines 272--327). Each of the four warnings leaves the chapter
  array as it is; a rejected read is caught by the inner \<open>try\<close> (line 316).
\<close>

definition spineStep ::
  "browser \<Rightarrow> zip \<Rightarrow> string \<Rightarrow> node list \<Rightarrow> node \<Rightarrow> EpubChapter list \<Rightarrow> EpubChapter list" where
  "spineStep env epub basePath manifestItems spineItem epubChapters =
     (let idref = getAttribute spineItem ''idref''
      in case find (\<lambda>item. getAttribute item ''id'' = idref) manifestItems of
           None \<Rightarrow> epubChapters
         | Some manifestItem \<Rightarrow>
             (case getAttribute manifestItem ''href'' of
                None \<Rightarrow> epubChapters
              | Some href \<Rightarrow>
                  if href = [] then epubChapters
                  else (case epub (basePath @ href) of
                          None \<Rightarrow> epubChapters
                        | Some (Unreadable msg) \<Rightarrow> epubChapters
                        | Some (Readable chapterContent) \<Rightarrow>
                            epubChapters
                            @ [buildChapter env idref (basePath @ href) chapterContent
                                 epubChapters])))"

text \<open>
  Lines 245--342 of \<open>parseEpub\<close>, from the parsed package document on: metadata, spine loop,
  the check for an empty result, and the outer \<open>catch\<close> that prefixes the message. Tag names
  of the package document are local names.
\<close>

definition parseEpub ::
  "browser \<Rightarrow> string \<Rightarrow> zip \<Rightarrow> string \<Rightarrow> node \<Rightarrow> string + EpubChapter list \<times> EpubMetadata" where
  "parseEpub env bookFileName epub opfPath opfDoc =
     (let epubMetadata =
            \<lparr>md_title = textOr (querySelector [''title''] opfDoc) bookFileName,
             md_author = textOr (querySelector [''creator''] opfDoc) ''Unknown Author'',
             md_language = textOr (querySelector [''language''] opfDoc) ''en''\<rparr>;
          basePath = basePathOf opfPath;
          spineItems = selectInside ''spine'' ''itemref'' False opfDoc;
          manifestItems = selectInside ''manifest'' ''item'' False opfDoc;
          epubChapters = fold (spineStep env epub basePath manifestItems) spineItems []
      in if length epubChapters = 0
         then Inl (''Failed to parse EPUB: '' @ ''No readable chapters found in EPUB'')
         else Inr (epubChapters, epubMetadata))"

text \<open>
  A spine entry yields a chapter exactly when its manifest item exists, has a non-empty
  \<open>href\<close>, and the archive holds a readable entry at the resolved path.
\<close>

definition spineItemLoads :: "zip \<Rightarrow> string \<Rightarrow> node list \<Rightarrow> node \<Rightarrow> bool" where
  "spineItemLoads epub basePath manifestItems spineItem =
     (case find (\<lambda>item. getAttribute item ''id'' = getAttribute spineItem ''idref'') manifestItems of
        None \<Rightarrow> False
      | Some manifestItem \<Rightarrow>
          (case getAttribute manifestItem ''href'' of
             None \<Rightarrow> False
           | Some href \<Rightarrow>
               href \<noteq> [] \<and> (case epub (basePath @ href) of
                               Some (Readable chapterContent) \<Rightarrow> True
                             | Some (Unreadable msg) \<Rightarrow> False
                             | None \<Rightarrow> False)))"

section \<open>The reading session\<close>

text \<open>The book record the reader is given; \<open>progress\<close> is a double.\<close>

record Book =
  book_id :: string
  fileName :: string
  progress :: rat
  currentPage :: int

text \<open>The component state (lines 81--97) that navigation and progress depend on.\<close>

record session =
  initializationRef :: "string option"
  isLoading :: bool
  error :: "string option"
  pages :: "EpubPage list"
  currentPageIndex :: int
  metadata :: "EpubMetadata option"
  textSettings :: TextSettings
  doublePageView :: bool

definition initialSession :: session where
  "initialSession =
     \<lparr>initializationRef = None, isLoading = True, error = None, pages = [],
      currentPageIndex = 0, metadata = None,
      textSettings = \<lparr>fontSize = 18,
        fontFamily = ''-apple-system, BlinkMacSystemFont, \"Segoe UI\", Roboto, sans-serif'',
        lineHeight = 16 / 10, margin = 40, theme = light\<rparr>,
      doublePageView = False\<rparr>"

text \<open>
  Lines 425--435: where reading starts once the pages are known. The product
  \<open>book.progress * epubPages.length\<close> is a product of doubles, rounded before
  \<open>Math.floor\<close> sees it; should it be infinite, \<open>Math.min\<close> picks the last index.
\<close>

definition initialPageIndex :: "Book \<Rightarrow> int \<Rightarrow> int" where
  "initialPageIndex book n =
     (if currentPage book \<noteq> 0 \<and> currentPage book > 1
      then max 0 (min (currentPage book - 1) (n - 1))
      else if progress book \<noteq> 0 \<and> progress book > 0
      then (case jsTimes (progress book) (of_int n) of
              Some x \<Rightarrow> max 0 (min \<lfloor>x\<rfloor> (n - 1))
            | None \<Rightarrow> max 0 (n - 1))
      else 0)"

text \<open>
  \<open>initReader\<close> up to its first \<open>await\<close> (lines 366--375): the book is marked as being
  initialised and the loading state is entered.
\<close>

definition initReaderBegin :: "Book \<Rightarrow> session \<Rightarrow> session" where
  "initReaderBegin book st =
     st\<lparr>initializationRef := Some (book_id book), isLoading := True, error := None\<rparr>"

text \<open>
  The \<open>catch\<close> of \<open>initReader\<close> (lines 442--454): the message is shown, loading ends and
  the mark is cleared so that a retry can initialise again.
\<close>

definition initReaderCatch :: "string \<Rightarrow> session \<Rightarrow> session" where
  "initReaderCatch msg st = st\<lparr>error := Some msg, isLoading := False, initializationRef := None\<rparr>"

text \<open>
  \<open>initReader\<close> once \<open>getBookUrl\<close> has resolved (lines 391--440). The run is abandoned when
  the mark no longer names this book. \<open>outcome\<close> is what parsing under the 30 second
  time-out settled with (\<open>Inl\<close> the message of the error thrown); \<open>settings\<close> are the text
  settings of the render that started the run. The component is taken to be mounted.
\<close>

definition initReaderFinish ::
  "browser \<Rightarrow> Book \<Rightarrow> string + EpubChapter list \<times> EpubMetadata \<Rightarrow> TextSettings \<Rightarrow> session
     \<Rightarrow> session" where
  "initReaderFinish env book outcome settings st =
     (if initializationRef st \<noteq> Some (book_id book) then st
      else case outcome of
             Inl msg \<Rightarrow> initReaderCatch msg st
           | Inr (parsedChapters, parsedMetadata) \<Rightarrow>
               if length parsedChapters = 0
               then initReaderCatch ''No readable chapters found in EPUB file'' st
               else let epubPages = splitIntoPages env parsedChapters settings
                    in st\<lparr>pages := epubPages, metadata := Some parsedMetadata,
                          currentPageIndex := initialPageIndex book (int (length epubPages)),
                          isLoading := False\<rparr>)"

text \<open>
  The effect on a change of font size, font family, line height or margin (lines 461--468).
\<close>

definition resplitEffect :: "session \<Rightarrow> session" where
  "resplitEffect st =
     (if length (pages st) > 0 \<and> metadata st \<noteq> None then st\<lparr>initializationRef := None\<rparr>
      else st)"

text \<open>
  The initialisation effect up to the start of \<open>initReader\<close> (lines 346--360 and 457): a
  book that bears the mark is not initialised again. The viewer element is taken to be
  attached.
\<close>

definition initEffect :: "Book \<Rightarrow> session \<Rightarrow> session" where
  "initEffect book st =
     (if initializationRef st = Some (book_id book) then st else initReaderBegin book st)"

text \<open>The dependencies of the re-split effect (line 468).\<close>

definition layoutChanged :: "TextSettings \<Rightarrow> TextSettings \<Rightarrow> bool" where
  "layoutChanged old new =
     (\<not> (fontSize old = fontSize new \<and> fontFamily old = fontFamily new
         \<and> lineHeight old = lineHeight new \<and> margin old = margin new))"

text \<open>
  One call of \<open>setTextSettings\<close> and the effects of the render it causes, in the order in
  which the component declares them: the initialisation effect, whose dependencies include
  the settings object, and then the re-split effect if one of its four dependencies changed.
\<close>

definition changeTextSettings :: "Book \<Rightarrow> TextSettings \<Rightarrow> session \<Rightarrow> session" where
  "changeTextSettings book settings st =
     (let st1 = initEffect book (st\<lparr>textSettings := settings\<rparr>)
      in if layoutChanged (textSettings st) settings then resplitEffect st1 else st1)"

text \<open>The Retry button of the error view (lines 759--764).\<close>

definition retry :: "session \<Rightarrow> session" where
  "retry st = st\<lparr>error := None, isLoading := True, initializationRef := None\<rparr>"

text \<open>Lines 567--583.\<close>

definition goToNext :: "session \<Rightarrow> session" where
  "goToNext st =
     (let increment = (if doublePageView st then 2 else 1)
      in if currentPageIndex st + increment \<le> int (length (pages st)) - 1
         then st\<lparr>currentPageIndex :=
                   min (currentPageIndex st + increment) (int (length (pages st)) - 1)\<rparr>
         else st)"

definition goToPrev :: "session \<Rightarrow> session" where
  "goToPrev st =
     (let decrement = (if doublePageView st then 2 else 1)
      in if currentPageIndex st - decrement \<ge> 0
         then st\<lparr>currentPageIndex := max (currentPageIndex st - decrement) 0\<rparr>
         else st)"

text \<open>JavaScript's \<open>%\<close>: the remainder takes the sign of the dividend.\<close>

definition jsRem :: "int \<Rightarrow> int \<Rightarrow> int" where
  "jsRem a b = sgn a * (\<bar>a\<bar> mod \<bar>b\<bar>)"

text \<open>The \<open>onChange\<close> handler of the double-page checkbox (lines 977--983).\<close>

definition onDoublePageChange :: "bool \<Rightarrow> session \<Rightarrow> session" where
  "onDoublePageChange checked st =
     (let st1 = st\<lparr>doublePageView := checked\<rparr>
      in if checked \<and> jsRem (currentPageIndex st) 2 \<noteq> 0
         then st1\<lparr>currentPageIndex := max 0 (currentPageIndex st1 - 1)\<rparr>
         else st1)"

section \<open>The progress sink\<close>

text \<open>One call \<open>onProgressUpdate(book.id, progress, currentCfi, currentPage)\<close>.\<close>

record sinkCall =
  sc_bookId :: string
  sc_progress :: rat
  sc_currentCfi :: string
  sc_currentPage :: int

text \<open>
  \<open>saveProgress\<close> (lines 588--607) and \<open>saveProgressImmediately\<close> (lines 610--623):
  \<open>None\<close> when they return early, else the call they make (the first after its one-second
  timer, with the values computed before the timer was set). The flag says whether the
  optional callback \<open>onProgressUpdate\<close> was given.
\<close>

definition saveProgress :: "bool \<Rightarrow> Book \<Rightarrow> int \<Rightarrow> int \<Rightarrow> sinkCall option" where
  "saveProgress onProgressUpdate book pageIndex totalPages =
     (if \<not> onProgressUpdate \<or> totalPages = 0 then None
      else Some \<lparr>sc_bookId = book_id book,
                 sc_progress = max 0 (min 1 (of_int pageIndex / of_int totalPages)),
                 sc_currentCfi = ''page-'' @ showInt (pageIndex + 1),
                 sc_currentPage = pageIndex + 1\<rparr>)"

definition saveProgressImmediately :: "bool \<Rightarrow> Book \<Rightarrow> int \<Rightarrow> int \<Rightarrow> sinkCall option" where
  "saveProgressImmediately onProgressUpdate book pageIndex totalPages =
     (if \<not> onProgressUpdate \<or> totalPages = 0 then None
      else Some \<lparr>sc_bookId = book_id book,
                 sc_progress = max 0 (min 1 (of_int pageIndex / of_int totalPages)),
                 sc_currentCfi = ''page-'' @ showInt (pageIndex + 1),
                 sc_currentPage = pageIndex + 1\<rparr>)"

text \<open>The three places that save: the page-change effect (lines 626--631),
  \<open>handleBackToLibrary\<close> (lines 634--638) and the unmount clean-up (lines 687--692).\<close>

definition pageChangeEffect :: "bool \<Rightarrow> Book \<Rightarrow> session \<Rightarrow> sinkCall option" where
  "pageChangeEffect onProgressUpdate book st =
     (if length (pages st) > 0 \<and> \<not> isLoading st
      then saveProgress onProgressUpdate book (currentPageIndex st) (int (length (pages st)))
      else None)"

definition handleBackToLibrary :: "bool \<Rightarrow> Book \<Rightarrow> session \<Rightarrow> sinkCall option" where
  "handleBackToLibrary onProgressUpdate book st =
     (if length (pages st) > 0
      then saveProgressImmediately onProgressUpdate book (currentPageIndex st)
             (int (length (pages st)))
      else None)"

definition unmountEffect :: "bool \<Rightarrow> Book \<Rightarrow> session \<Rightarrow> sinkCall option" where
  "unmountEffect onProgressUpdate book st =
     (if length (pages st) > 0 \<and> currentPageIndex st \<ge> 0
      then saveProgressImmediately onProgressUpdate book (currentPageIndex st)
             (int (length (pages st)))
      else None)"

text \<open>What can happen to a session, and the state after a sequence of such events.\<close>

datatype event =
    InitBegin
  | InitUrlFailed string
  | InitFinish "string + EpubChapter list \<times> EpubMetadata" TextSettings
  | Retry
  | SetTextSettings TextSettings
  | ChangeTextSettings TextSettings
  | ResplitEffect
  | GoToNext
  | GoToPrev
  | DoublePageChange bool

fun step :: "browser \<Rightarrow> Book \<Rightarrow> event \<Rightarrow> session \<Rightarrow> session" where
  "step env book InitBegin st = initReaderBegin book st"
| "step env book (InitUrlFailed msg) st = initReaderCatch msg st"
| "step env book (InitFinish outcome settings) st = initReaderFinish env book outcome settings st"
| "step env book Retry st = retry st"
| "step env book (SetTextSettings settings) st = st\<lparr>textSettings := settings\<rparr>"
| "step env book (ChangeTextSettings settings) st = changeTextSettings book settings st"
| "step env book ResplitEffect st = resplitEffect st"
| "step env book GoToNext st = goToNext st"
| "step env book GoToPrev st = goToPrev st"
| "step env book (DoublePageChange checked) st = onDoublePageChange checked st"

definition run :: "browser \<Rightarrow> Book \<Rightarrow> event list \<Rightarrow> session" where
  "run env book evs = fold (step env book) evs initialSession"

section \<open>A browser for the worked examples\<close>

text \<open>
  The general results below hold for every browser. The worked examples need one. Its
  parser reads well-formed markup whose tags carry no attributes (no comments, no raw text
  elements), decodes the character references for \<open>&\<close>, \<open><\<close>, \<open>>\<close>, the double quote and
  the no-break space, and completes a document to \<open>html\<close>, \<open>head\<close> and \<open>body\<close> as the
  HTML parser does. Its layout gives every character of markup one line of the font's
  height.
\<close>

definition decodeRefs :: "string \<Rightarrow> string" where
  "decodeRefs s =
     foldr (\<lambda>c acc. if c \<noteq> CHR ''&'' then c # acc
                     else if take 4 acc = ''amp;'' then CHR ''&'' # drop 4 acc
                     else if take 3 acc = ''lt;'' then CHR ''<'' # drop 3 acc
                     else if take 3 acc = ''gt;'' then CHR ''>'' # drop 3 acc
                     else if take 5 acc = ''quot;'' then CHR 0x22 # drop 5 acc
                     else if take 5 acc = ''nbsp;'' then CHR 0xA0 # drop 5 acc
                     else c # acc) s []"

datatype parseMode = InText string | InOpenTag string | InCloseTag string

fun addChild :: "node \<Rightarrow> (string \<times> node list) list \<Rightarrow> (string \<times> node list) list" where
  "addChild n [] = []"
| "addChild n ((t, cs) # rest) = (t, cs @ [n]) # rest"

definition flushText :: "string \<Rightarrow> (string \<times> node list) list \<Rightarrow> (string \<times> node list) list" where
  "flushText t stack = (if t = [] then stack else addChild (TextNode (decodeRefs t)) stack)"

fun closeTop :: "(string \<times> node list) list \<Rightarrow> (string \<times> node list) list" where
  "closeTop ((t, cs) # parent # rest) = addChild (Element t [] cs) (parent # rest)"
| "closeTop stack = stack"

fun parseChar ::
  "char \<Rightarrow> (string \<times> node list) list \<times> parseMode \<Rightarrow> (string \<times> node list) list \<times> parseMode" where
  "parseChar c (stack, InText t) =
     (if c = CHR ''<'' then (flushText t stack, InOpenTag []) else (stack, InText (t @ [c])))"
| "parseChar c (stack, InOpenTag n) =
     (if c = CHR ''/'' \<and> n = [] then (stack, InCloseTag [])
      else if c = CHR ''>''
      then (if n \<in> set voidTags then (addChild (Element n [] []) stack, InText [])
            else ((n, []) # stack, InText []))
      else (stack, InOpenTag (n @ [c])))"
| "parseChar c (stack, InCloseTag n) =
     (if c = CHR ''>'' then (closeTop stack, InText []) else (stack, InCloseTag (n @ [c])))"

fun closeAll :: "(string \<times> node list) list \<Rightarrow> node list" where
  "closeAll [] = []"
| "closeAll [(t, cs)] = cs"
| "closeAll ((t, cs) # (t', cs') # rest) = closeAll ((t', cs' @ [Element t [] cs]) # rest)"

definition parseMarkup :: "string \<Rightarrow> node list" where
  "parseMarkup s =
     (case fold parseChar s ([(''#root'', [])], InText []) of
        (stack, InText t) \<Rightarrow> closeAll (flushText t stack)
      | (stack, InOpenTag n) \<Rightarrow> closeAll stack
      | (stack, InCloseTag n) \<Rightarrow> closeAll stack)"

definition isTag :: "string \<Rightarrow> node \<Rightarrow> bool" where
  "isTag t n = (isElement n \<and> tagName n = t)"

definition inBody :: "node list \<Rightarrow> node list" where
  "inBody ns =
     [Element ''html'' []
        [Element ''head'' [] (filter (isTag ''title'') ns),
         Element ''body'' [] (filter (\<lambda>c. \<not> isTag ''title'' c) ns)]]"

definition parseHtmlDocument :: "string \<Rightarrow> node list" where
  "parseHtmlDocument s =
     (case parseMarkup s of
        [Element t a cs] \<Rightarrow>
          if t \<noteq> ''html'' then inBody [Element t a cs]
          else if list_ex (isTag ''body'') cs then [Element t a cs]
          else [Element t a
                  (filter (isTag ''head'') cs
                   @ [Element ''body'' [] (filter (\<lambda>c. \<not> isTag ''head'' c) cs)])]
      | ns \<Rightarrow> inBody ns)"

definition exampleBrowser :: browser where
  "exampleBrowser =
     \<lparr>innerWidth = 1024, innerHeight = 768, parseFragment = parseMarkup,
      parseDocument = parseHtmlDocument,
      scrollHeight = (\<lambda>box html. boxFontSize box * int (length html))\<rparr>"

definition defaultSettings :: TextSettings where
  "defaultSettings = textSettings initialSession"

definition largeSettings :: TextSettings where
  "largeSettings = defaultSettings\<lparr>fontSize := 32\<rparr>"

definition oneParagraph :: EpubChapter where
  "oneParagraph =
     \<lparr>ch_id = ''c1'', ch_title = ''One'', ch_content = ''<p>a</p>'', ch_href = ''c1.xhtml''\<rparr>"

definition twoParagraphs :: EpubChapter where
  "twoParagraphs =
     \<lparr>ch_id = ''c2'', ch_title = ''Two'', ch_content = ''<p>a</p><p>a</p>'',
      ch_href = ''c2.xhtml''\<rparr>"

definition nestedChapter :: EpubChapter where
  "nestedChapter =
     \<lparr>ch_id = ''c3'', ch_title = ''Nested'', ch_content = ''<div><p>a</p></div>'',
      ch_href = ''c3.xhtml''\<rparr>"

definition emptyChapter :: EpubChapter where
  "emptyChapter = \<lparr>ch_id = ''c4'', ch_title = ''Empty'', ch_content = [], ch_href = ''c4.xhtml''\<rparr>"

text \<open>Ten chapters with sixteen paragraphs between them.\<close>

definition exampleChapters :: "EpubChapter list" where
  "exampleChapters = replicate 6 twoParagraphs @ replicate 4 oneParagraph"

text \<open>How often a piece of markup occurs in a string.\<close>

fun occurrences :: "string \<Rightarrow> string \<Rightarrow> nat" where
  "occurrences pat [] = (if pat = [] then 1 else 0)"
| "occurrences pat (c # cs) =
     (if take (length pat) (c # cs) = pat then 1 else 0) + occurrences pat cs"

definition longParagraph :: EpubChapter where
  "longParagraph =
     \<lparr>ch_id = ''c5'', ch_title = ''Long'',
      ch_content = ''<p>It was a dark and stormy night.</p>'', ch_href = ''c5.xhtml''\<rparr>"

definition exampleMetadata :: EpubMetadata where
  "exampleMetadata = \<lparr>md_title = ''Example'', md_author = ''Unknown Author'', md_language = ''en''\<rparr>"

text \<open>A book never opened before, and one left half-way with no page number saved.\<close>

definition freshBook :: Book where
  "freshBook = \<lparr>book_id = ''book'', fileName = ''book.epub'', progress = 0, currentPage = 0\<rparr>"

definition halfReadBook :: Book where
  "halfReadBook = \<lparr>book_id = ''book'', fileName = ''book.epub'', progress = 1 / 2, currentPage = 0\<rparr>"

text \<open>The fresh book opened with the default settings: ten pages, the first one shown.\<close>

definition tenPageSession :: session where
  "tenPageSession =
     run exampleBrowser freshBook
       [InitBegin, InitFinish (Inr (exampleChapters, exampleMetadata)) defaultSettings]"

definition atPage :: "int \<Rightarrow> bool \<Rightarrow> session" where
  "atPage i double = tenPageSession\<lparr>currentPageIndex := i, doublePageView := double\<rparr>"

text \<open>
  An archive whose spine names three items; the second has no manifest item.
\<close>

definition exampleOpf :: node where
  "exampleOpf =
     Element ''package'' []
       [Element ''metadata'' [] [Element ''title'' [] [TextNode ''Example'']],
        Element ''manifest'' []
          [Element ''item'' [(''id'', ''a''), (''href'', ''a.xhtml'')] [],
           Element ''item'' [(''id'', ''c''), (''href'', ''c.xhtml'')] []],
        Element ''spine'' []
          [Element ''itemref'' [(''idref'', ''a'')] [],
           Element ''itemref'' [(''idref'', ''b'')] [],
           Element ''itemref'' [(''idref'', ''c'')] []]]"

definition exampleZip :: zip where
  "exampleZip path =
     (if path = ''OEBPS/a.xhtml''
      then Some (Readable ''<html><head><title>One</title></head><body><p>a</p></body></html>'')
      else if path = ''OEBPS/c.xhtml''
      then Some (Readable ''<html><head></head><body><h1>Three</h1><p>a</p></body></html>'')
      else None)"

text \<open>
  The book record as a save at page index 4 of 10 leaves it. The session at that page after
  the font size is changed and then the theme, and the session once the initialisation that
  the second change starts has finished.
\<close>

definition savedBook :: Book where
  "savedBook =
     \<lparr>book_id = ''book'', fileName = ''book.epub'',
      progress = 3602879701896397 / 9007199254740992,
      currentPage = 5\<rparr>"

definition darkLargeSettings :: TextSettings where
  "darkLargeSettings = largeSettings\<lparr>theme := dark\<rparr>"

definition afterFontChange :: "Book \<Rightarrow> session" where
  "afterFontChange book = changeTextSettings book largeSettings (atPage 4 False)"

definition afterThemeChange :: "Book \<Rightarrow> session" where
  "afterThemeChange book = changeTextSettings book darkLargeSettings (afterFontChange book)"

definition reinitialised :: "Book \<Rightarrow> session" where
  "reinitialised book =
     initReaderFinish exampleBrowser book (Inr (exampleChapters, exampleMetadata))
       darkLargeSettings (afterThemeChange book)"

text \<open>A book record whose progress is the double nearest to 0.7.\<close>

definition seventyPercentBook :: Book where
  "seventyPercentBook =
     \<lparr>book_id = ''book'', fileName = ''book.epub'',
      progress = 3152519739159347 / 4503599627370496, currentPage = 0\<rparr>"

section \<open>Properties of pagination\<close>

lemma not_white_lt: "\<not> isWhiteSpace CHR ''<''"
  by (simp add: isWhiteSpace_def)

lemma dropWhile_keeps: "x \<in> set xs \<Longrightarrow> \<not> P x \<Longrightarrow> x \<in> set (dropWhile P xs)"
  by (induction xs) auto

lemma trim_nonempty: "c \<in> set s \<Longrightarrow> \<not> isWhiteSpace c \<Longrightarrow> trim s \<noteq> []"
proof -
  assume c: "c \<in> set s" and w: "\<not> isWhiteSpace c"
  from c w have "c \<in> set (dropWhile isWhiteSpace s)" by (rule dropWhile_keeps)
  then have "c \<in> set (rev (dropWhile isWhiteSpace s))" by simp
  then have "c \<in> set (dropWhile isWhiteSpace (rev (dropWhile isWhiteSpace s)))"
    using w by (rule dropWhile_keeps)
  then have "dropWhile isWhiteSpace (rev (dropWhile isWhiteSpace s)) \<noteq> []"
    by (cases "dropWhile isWhiteSpace (rev (dropWhile isWhiteSpace s))") simp_all
  then show ?thesis by (simp add: trim_def)
qed

lemma trim_Nil: "trim [] = []"
  by (simp add: trim_def)

lemma outerHTML_has_lt: "isElement e \<Longrightarrow> CHR ''<'' \<in> set (outerHTML e)"
  by (cases e) auto

lemma elementHtml_Element: "isElement e \<Longrightarrow> elementHtml e = outerHTML e"
  using outerHTML_has_lt [of e] by (auto simp: elementHtml_def)

lemma elementsOf_isElement: "e \<in> set (elementsOf n) \<Longrightarrow> isElement e"
  by (induction n arbitrary: e) auto

lemma descendantElements_isElement: "e \<in> set (descendantElements n) \<Longrightarrow> isElement e"
  by (auto simp: descendantElements_def dest: elementsOf_isElement)

lemma chapterElements_isElement: "e \<in> set (chapterElements env ch) \<Longrightarrow> isElement e"
  by (auto simp: chapterElements_def Let_def querySelectorAll_def tempDiv_def
      dest: descendantElements_isElement split: if_splits)

lemma chapterElements_nonempty: "chapterElements env ch \<noteq> []"
  by (auto simp: chapterElements_def Let_def)

lemma elementStep_close:
  "scrollHeight env (tempContainer env s) (cur @ elementHtml e) > pageHeight env
     \<Longrightarrow> trim cur \<noteq> []
     \<Longrightarrow> elementStep env s ch e (ps, cur, n)
           = (ps @ [mkPage ps cur ch n], elementHtml e, n + 1)"
  by (simp add: elementStep_def)

lemma elementStep_keep:
  "\<not> (scrollHeight env (tempContainer env s) (cur @ elementHtml e) > pageHeight env
        \<and> trim cur \<noteq> [])
     \<Longrightarrow> elementStep env s ch e (ps, cur, n) = (ps, cur @ elementHtml e, n)"
  unfolding elementStep_def by (simp only: prod.case if_False)

lemma elementStep_content:
  assumes "isElement e" and "elementStep env s ch e (ps, cur, n) = (ps', cur', n')"
  shows "concat (map pg_content ps') @ cur' = concat (map pg_content ps) @ cur @ outerHTML e
         \<and> CHR ''<'' \<in> set cur' \<and> length ps \<le> length ps'"
proof -
  let ?c = "scrollHeight env (tempContainer env s) (cur @ elementHtml e) > pageHeight env
            \<and> trim cur \<noteq> []"
  have lt: "CHR ''<'' \<in> set (outerHTML e)" using assms(1) by (rule outerHTML_has_lt)
  have eh: "elementHtml e = outerHTML e" using assms(1) by (rule elementHtml_Element)
  show ?thesis
  proof (cases ?c)
    case True
    then have "elementStep env s ch e (ps, cur, n)
                 = (ps @ [mkPage ps cur ch n], elementHtml e, n + 1)"
      by (simp add: elementStep_close)
    then have "ps' = ps @ [mkPage ps cur ch n]" and "cur' = outerHTML e"
      using assms(2) eh by simp_all
    then show ?thesis using lt by (simp add: mkPage_def)
  next
    case False
    then have "elementStep env s ch e (ps, cur, n) = (ps, cur @ elementHtml e, n)"
      by (rule elementStep_keep)
    then have "ps' = ps" and "cur' = cur @ outerHTML e"
      using assms(2) eh by simp_all
    then show ?thesis using lt by simp
  qed
qed

lemma fold_elementStep_content:
  assumes "\<forall>e \<in> set es. isElement e"
    and "fold (elementStep env s ch) es (ps, cur, n) = (ps', cur', n')"
  shows "concat (map pg_content ps') @ cur'
           = concat (map pg_content ps) @ cur @ concat (map outerHTML es)
         \<and> (es \<noteq> [] \<longrightarrow> CHR ''<'' \<in> set cur') \<and> length ps \<le> length ps'"
  using assms
proof (induction es arbitrary: ps cur n)
  case Nil
  then show ?case by simp
next
  case (Cons e es)
  obtain ps1 cur1 n1 where st: "elementStep env s ch e (ps, cur, n) = (ps1, cur1, n1)"
    by (cases "elementStep env s ch e (ps, cur, n)") auto
  have e: "isElement e" using Cons.prems(1) by simp
  note one = elementStep_content [OF e st]
  have rest: "fold (elementStep env s ch) es (ps1, cur1, n1) = (ps', cur', n')"
    using Cons.prems(2) st by simp
  have all: "\<forall>e \<in> set es. isElement e" using Cons.prems(1) by simp
  note ih = Cons.IH [OF all rest]
  show ?case
  proof (cases "es = []")
    case True
    then show ?thesis using one rest by simp
  next
    case False
    then show ?thesis using ih one by simp
  qed
qed

lemma chapterStep_content:
  "concat (map pg_content (chapterStep env s ch ps))
     = concat (map pg_content ps) @ concat (map outerHTML (chapterElements env ch))"
  and chapterStep_length: "length ps < length (chapterStep env s ch ps)"
proof -
  obtain ps' cur' n' where f:
    "fold (elementStep env s ch) (chapterElements env ch) (ps, [], 1) = (ps', cur', n')"
    by (cases "fold (elementStep env s ch) (chapterElements env ch) (ps, [], 1)") auto
  have all: "\<forall>e \<in> set (chapterElements env ch). isElement e"
    by (simp add: chapterElements_isElement)
  note inv = fold_elementStep_content [OF all f]
  have "CHR ''<'' \<in> set cur'" using inv chapterElements_nonempty by blast
  then have t: "trim cur' \<noteq> []" by (rule trim_nonempty) (rule not_white_lt)
  have cs: "chapterStep env s ch ps = ps' @ [mkPage ps' cur' ch n']"
    using f t by (simp add: chapterStep_def)
  show "concat (map pg_content (chapterStep env s ch ps))
     = concat (map pg_content ps) @ concat (map outerHTML (chapterElements env ch))"
    using inv cs by (simp add: mkPage_def)
  show "length ps < length (chapterStep env s ch ps)"
    using inv cs by simp
qed

lemma fold_chapterStep_content:
  "concat (map pg_content (fold (chapterStep env s) chs ps))
     = concat (map pg_content ps)
       @ concat (map (\<lambda>ch. concat (map outerHTML (chapterElements env ch))) chs)"
  by (induction chs arbitrary: ps) (simp_all add: chapterStep_content)

lemma fold_chapterStep_length:
  "length ps + length chs \<le> length (fold (chapterStep env s) chs ps)"
proof (induction chs arbitrary: ps)
  case Nil
  then show ?case by simp
next
  case (Cons ch chs)
  have "length (chapterStep env s ch ps) + length chs
          \<le> length (fold (chapterStep env s) chs (chapterStep env s ch ps))"
    by (rule Cons.IH)
  then show ?case using chapterStep_length [of ps env s ch] by simp
qed

text \<open>
  What the loop keeps: the pages, concatenated, are the outer markup of the selected elements
  of each chapter, one after the other; and every chapter gives at least one page.
\<close>

lemma splitIntoPages_content:
  "concat (map pg_content (splitIntoPages env chs s))
     = concat (map (\<lambda>ch. concat (map outerHTML (chapterElements env ch))) chs)"
  by (simp add: splitIntoPages_def fold_chapterStep_content)

lemma splitIntoPages_length: "length chs \<le> length (splitIntoPages env chs s)"
  using fold_chapterStep_length [of "[]" chs env s] by (simp add: splitIntoPages_def)

lemma splitIntoPages_nonempty: "chs \<noteq> [] \<Longrightarrow> splitIntoPages env chs s \<noteq> []"
  using splitIntoPages_length [of chs env s] by (cases chs) auto

lemma sole_block_page:
  assumes "chapterElements env ch = [b]"
  shows "splitIntoPages env [ch] s
           = [\<lparr>pg_id = ''page-1'', pg_content = outerHTML b, chapterTitle = ch_title ch,
               pageNumber = 1\<rparr>]"
proof -
  have b: "isElement b" using assms chapterElements_isElement [of b env ch] by simp
  have eh: "elementHtml b = outerHTML b" using b by (rule elementHtml_Element)
  have "\<not> (scrollHeight env (tempContainer env s) ([] @ elementHtml b) > pageHeight env
           \<and> trim [] \<noteq> [])"
    by (simp add: trim_Nil)
  then have st: "elementStep env s ch b ([], [], 1) = ([], [] @ elementHtml b, 1)"
    by (rule elementStep_keep)
  have "CHR ''<'' \<in> set (outerHTML b)" using b by (rule outerHTML_has_lt)
  then have t: "trim (outerHTML b) \<noteq> []" by (rule trim_nonempty) (rule not_white_lt)
  have "chapterStep env s ch [] = [mkPage [] (outerHTML b) ch 1]"
    using st t by (simp add: chapterStep_def assms eh)
  then show ?thesis by (simp add: splitIntoPages_def mkPage_def digitChar_def)
qed

lemma page_closed_only_on_overflow:
  assumes "fst (elementStep env s ch e (ps, cur, n)) \<noteq> ps"
  shows "scrollHeight env (tempContainer env s) (cur @ elementHtml e) > pageHeight env \<and> cur \<noteq> []"
proof (rule ccontr)
  assume neg: "\<not> (scrollHeight env (tempContainer env s) (cur @ elementHtml e) > pageHeight env \<and> cur \<noteq> [])"
  have "\<not> (scrollHeight env (tempContainer env s) (cur @ elementHtml e) > pageHeight env
           \<and> trim cur \<noteq> [])"
    using neg trim_Nil by auto
  then have "elementStep env s ch e (ps, cur, n) = (ps, cur @ elementHtml e, n)"
    by (rule elementStep_keep)
  then show False using assms by simp
qed

text \<open>
  Claim C5. A chapter whose only block measures more than the page height still gives
  exactly one page, and that page holds the block; and one step of the loop closes a page
  only if the measured height exceeds the page height and the accumulator was not empty
  before the block was added.
\<close>

theorem oversized_sole_block_gets_one_page:
  "(chapterElements env ch = [b]
      \<and> scrollHeight env (tempContainer env s) (elementHtml b) > pageHeight env
      \<longrightarrow> splitIntoPages env [ch] s
            = [\<lparr>pg_id = ''page-1'', pg_content = outerHTML b, chapterTitle = ch_title ch,
                pageNumber = 1\<rparr>])
   \<and> (fst (elementStep env s ch e (ps, cur, n)) \<noteq> ps
      \<longrightarrow> scrollHeight env (tempContainer env s) (cur @ elementHtml e) > pageHeight env
          \<and> cur \<noteq> [])"
  using sole_block_page [of env ch b s] page_closed_only_on_overflow [of env s ch e ps cur n]
  by blast

lemma longParagraph_elements:
  "chapterElements exampleBrowser longParagraph
     = [Element ''p'' [] [TextNode ''It was a dark and stormy night.'']]"
  by code_simp

lemma longParagraph_oversized:
  "scrollHeight exampleBrowser (tempContainer exampleBrowser defaultSettings)
     (elementHtml (Element ''p'' [] [TextNode ''It was a dark and stormy night.'']))
     > pageHeight exampleBrowser"
  by code_simp

theorem oversized_sole_block_gets_one_page_witness:
  "chapterElements exampleBrowser longParagraph
     = [Element ''p'' [] [TextNode ''It was a dark and stormy night.'']]
   \<and> scrollHeight exampleBrowser (tempContainer exampleBrowser defaultSettings)
       (elementHtml (Element ''p'' [] [TextNode ''It was a dark and stormy night.'']))
       > pageHeight exampleBrowser
   \<and> splitIntoPages exampleBrowser [longParagraph] defaultSettings
       = [\<lparr>pg_id = ''page-1'', pg_content = ''<p>It was a dark and stormy night.</p>'',
           chapterTitle = ''Long'', pageNumber = 1\<rparr>]
   \<and> fst (elementStep exampleBrowser defaultSettings longParagraph
            (Element ''p'' [] [TextNode ''a''])
            ([], ''<p>It was a dark and stormy night.</p>'', 1)) \<noteq> []
   \<and> scrollHeight exampleBrowser (tempContainer exampleBrowser defaultSettings)
       (''<p>It was a dark and stormy night.</p>'' @ elementHtml (Element ''p'' [] [TextNode ''a'']))
       > pageHeight exampleBrowser"
proof -
  have step: "fst (elementStep exampleBrowser defaultSettings longParagraph
            (Element ''p'' [] [TextNode ''a''])
            ([], ''<p>It was a dark and stormy night.</p>'', 1)) \<noteq> []"
    by code_simp
  have t: "ch_title longParagraph = ''Long''" by (simp add: longParagraph_def)
  have o: "outerHTML (Element ''p'' [] [TextNode ''It was a dark and stormy night.''])
             = ''<p>It was a dark and stormy night.</p>''"
    by code_simp
  show ?thesis
    using oversized_sole_block_gets_one_page
      [where env = exampleBrowser and ch = longParagraph
         and b = "Element ''p'' [] [TextNode ''It was a dark and stormy night.'']"
         and s = defaultSettings and e = "Element ''p'' [] [TextNode ''a'']" and ps = "[]"
         and cur = "''<p>It was a dark and stormy night.</p>''" and n = 1]
      longParagraph_elements longParagraph_oversized step t o
    by simp
qed

text \<open>
  Claim C7 says that a chapter with empty content and no block elements gives no page. The
  code falls back to the wrapper \<open>div\<close>, whose outer markup \<open><div></div>\<close> is not blank,
  so the final flush emits one page: evaluated here on the empty chapter.
\<close>

theorem empty_chapter_yields_page:
  "splitIntoPages exampleBrowser [emptyChapter] defaultSettings
     = [\<lparr>pg_id = ''page-1'', pg_content = ''<div></div>'', chapterTitle = ''Empty'',
         pageNumber = 1\<rparr>]
   \<and> querySelectorAll blockTags (tempDiv exampleBrowser emptyChapter) = []
   \<and> ch_content emptyChapter = []"
  by code_simp

text \<open>The same for every browser that parses the chapter's content to no node at all.\<close>

lemma empty_fragment_yields_page:
  assumes "parseFragment env (ch_content ch) = []"
  shows "splitIntoPages env [ch] s
           = [\<lparr>pg_id = ''page-1'', pg_content = ''<div></div>'', chapterTitle = ch_title ch,
               pageNumber = 1\<rparr>]"
proof -
  have "chapterElements env ch = [Element ''div'' [] []]"
    using assms
    by (simp add: chapterElements_def tempDiv_def querySelectorAll_def descendantElements_def)
  then have "splitIntoPages env [ch] s
           = [\<lparr>pg_id = ''page-1'', pg_content = outerHTML (Element ''div'' [] []),
               chapterTitle = ch_title ch, pageNumber = 1\<rparr>]"
    by (rule sole_block_page)
  then show ?thesis by (simp add: voidTags_def)
qed

text \<open>
  Claim C1 says that the concatenated pages reproduce every block's markup exactly once.
  The selector also returns blocks nested in other blocks, and the outer markup of the
  ancestor already contains them: evaluated here on a paragraph inside a \<open>div\<close>, whose
  markup occurs once in the chapter and twice in the pages.
\<close>

theorem nested_block_reproduced_twice:
  "concat (map pg_content (splitIntoPages exampleBrowser [nestedChapter] defaultSettings))
     = ''<div><p>a</p></div><p>a</p>''
   \<and> ch_content nestedChapter = ''<div><p>a</p></div>''
   \<and> occurrences ''<p>a</p>'' (ch_content nestedChapter) = 1
   \<and> occurrences ''<p>a</p>''
        (concat (map pg_content (splitIntoPages exampleBrowser [nestedChapter] defaultSettings)))
      = 2"
  by code_simp

section \<open>Properties of chapter extraction\<close>

lemma spineStep_skips:
  "\<not> spineItemLoads epub basePath manifestItems spineItem
     \<Longrightarrow> spineStep env epub basePath manifestItems spineItem chs = chs"
  by (auto simp: spineStep_def spineItemLoads_def Let_def
      split: option.splits zipEntry.splits)

lemma spineStep_loads:
  "spineItemLoads epub basePath manifestItems spineItem
     \<Longrightarrow> \<exists>c. spineStep env epub basePath manifestItems spineItem chs = chs @ [c]"
  by (auto simp: spineStep_def spineItemLoads_def Let_def
      split: option.splits zipEntry.splits)

lemma fold_spineStep_length:
  "length (fold (spineStep env epub basePath manifestItems) items chs)
     = length chs + length (filter (spineItemLoads epub basePath manifestItems) items)"
proof (induction items arbitrary: chs)
  case Nil
  then show ?case by simp
next
  case (Cons item items)
  show ?case
  proof (cases "spineItemLoads epub basePath manifestItems item")
    case True
    then obtain c where "spineStep env epub basePath manifestItems item chs = chs @ [c]"
      using spineStep_loads by blast
    then show ?thesis using True Cons.IH [of "chs @ [c]"] by simp
  next
    case False
    then have "spineStep env epub basePath manifestItems item chs = chs"
      by (rule spineStep_skips)
    then show ?thesis using False Cons.IH [of chs] by simp
  qed
qed

text \<open>
  Claim C8. A spine entry that fails (no manifest item, no \<open>href\<close>, no archive entry, or an
  entry whose text cannot be read) leaves the chapter array as it is; the number of chapters
  is the number of spine entries that load; and \<open>parseEpub\<close> fails, with the message that no
  readable chapters were found, exactly when the resulting chapter sequence is empty.
\<close>

theorem failed_spine_entries_are_skipped:
  assumes "spineItems = selectInside ''spine'' ''itemref'' False opfDoc"
    and "manifestItems = selectInside ''manifest'' ''item'' False opfDoc"
    and "loads = spineItemLoads epub (basePathOf opfPath) manifestItems"
    and "chapters = fold (spineStep env epub (basePathOf opfPath) manifestItems) spineItems []"
  shows "(\<forall>item acc. \<not> loads item
            \<longrightarrow> spineStep env epub (basePathOf opfPath) manifestItems item acc = acc)
         \<and> length chapters = length (filter loads spineItems)
         \<and> (chapters = []
            \<longrightarrow> parseEpub env bookFileName epub opfPath opfDoc
                = Inl ''Failed to parse EPUB: No readable chapters found in EPUB'')
         \<and> (chapters \<noteq> []
            \<longrightarrow> (\<exists>md. parseEpub env bookFileName epub opfPath opfDoc = Inr (chapters, md)))
         \<and> ((\<exists>msg. parseEpub env bookFileName epub opfPath opfDoc = Inl msg)
            \<longleftrightarrow> chapters = [])"
proof -
  have len: "length chapters = length (filter loads spineItems)"
    using fold_spineStep_length [of env epub "basePathOf opfPath" manifestItems spineItems "[]"]
    by (simp add: assms(3,4))
  have skip: "\<forall>item acc. \<not> loads item
            \<longrightarrow> spineStep env epub (basePathOf opfPath) manifestItems item acc = acc"
    using spineStep_skips by (simp add: assms(3))
  have e: "chapters = []
            \<Longrightarrow> parseEpub env bookFileName epub opfPath opfDoc
                = Inl ''Failed to parse EPUB: No readable chapters found in EPUB''"
    using assms(1,2,4) by (simp add: parseEpub_def Let_def)
  have n: "chapters \<noteq> []
            \<Longrightarrow> (\<exists>md. parseEpub env bookFileName epub opfPath opfDoc = Inr (chapters, md))"
    using assms(1,2,4) by (simp add: parseEpub_def Let_def)
  have iff: "(\<exists>msg. parseEpub env bookFileName epub opfPath opfDoc = Inl msg)
            \<longleftrightarrow> chapters = []"
    using e n by (cases "chapters = []") auto
  show ?thesis using len skip e n iff by blast
qed

lemma example_parse:
  "parseEpub exampleBrowser ''book.epub'' exampleZip ''OEBPS/content.opf'' exampleOpf
     = Inr ([\<lparr>ch_id = ''a'', ch_title = ''One'', ch_content = ''<p>a</p>'',
               ch_href = ''OEBPS/a.xhtml''\<rparr>,
             \<lparr>ch_id = ''c'', ch_title = ''Three'', ch_content = ''<h1>Three</h1><p>a</p>'',
               ch_href = ''OEBPS/c.xhtml''\<rparr>], exampleMetadata)"
  by code_simp

lemma example_spine:
  "selectInside ''spine'' ''itemref'' False exampleOpf
     = [Element ''itemref'' [(''idref'', ''a'')] [], Element ''itemref'' [(''idref'', ''b'')] [],
        Element ''itemref'' [(''idref'', ''c'')] []]"
  by code_simp

theorem failed_spine_entries_are_skipped_witness:
  "length (selectInside ''spine'' ''itemref'' False exampleOpf) = 3
   \<and> spineStep exampleBrowser exampleZip (basePathOf ''OEBPS/content.opf'')
        (selectInside ''manifest'' ''item'' False exampleOpf)
        (Element ''itemref'' [(''idref'', ''b'')] []) [] = []
   \<and> length (fold (spineStep exampleBrowser exampleZip (basePathOf ''OEBPS/content.opf'')
                (selectInside ''manifest'' ''item'' False exampleOpf))
              (selectInside ''spine'' ''itemref'' False exampleOpf) []) = 2
   \<and> parseEpub exampleBrowser ''book.epub'' exampleZip ''OEBPS/content.opf'' exampleOpf
       = Inr ([\<lparr>ch_id = ''a'', ch_title = ''One'', ch_content = ''<p>a</p>'',
                 ch_href = ''OEBPS/a.xhtml''\<rparr>,
               \<lparr>ch_id = ''c'', ch_title = ''Three'', ch_content = ''<h1>Three</h1><p>a</p>'',
                 ch_href = ''OEBPS/c.xhtml''\<rparr>], exampleMetadata)
   \<and> parseEpub exampleBrowser ''book.epub'' (\<lambda>path. None) ''OEBPS/content.opf'' exampleOpf
       = Inl ''Failed to parse EPUB: No readable chapters found in EPUB''"
proof -
  let ?M = "selectInside ''manifest'' ''item'' False exampleOpf"
  let ?S = "selectInside ''spine'' ''itemref'' False exampleOpf"
  let ?b = "Element ''itemref'' [(''idref'', ''b'')] []"
  let ?bp = "basePathOf ''OEBPS/content.opf''"
  note t = failed_spine_entries_are_skipped
    [OF refl refl refl refl, where env = exampleBrowser and epub = exampleZip
       and opfPath = "''OEBPS/content.opf''" and opfDoc = exampleOpf
       and bookFileName = "''book.epub''"]
  have nb: "\<not> spineItemLoads exampleZip ?bp ?M ?b" by code_simp
  have s: "spineStep exampleBrowser exampleZip ?bp ?M ?b [] = []"
    using t nb by blast
  have f: "filter (spineItemLoads exampleZip ?bp ?M) ?S
             = [Element ''itemref'' [(''idref'', ''a'')] [],
                Element ''itemref'' [(''idref'', ''c'')] []]"
    by code_simp
  have l: "length (fold (spineStep exampleBrowser exampleZip ?bp ?M) ?S []) = 2"
    using t f by simp
  note t0 = failed_spine_entries_are_skipped
    [OF refl refl refl refl, where env = exampleBrowser and epub = "\<lambda>path. None"
       and opfPath = "''OEBPS/content.opf''" and opfDoc = exampleOpf
       and bookFileName = "''book.epub''"]
  have f0: "filter (spineItemLoads (\<lambda>path. None) ?bp ?M) ?S = []"
    by code_simp
  have "fold (spineStep exampleBrowser (\<lambda>path. None) ?bp ?M) ?S [] = []"
    using t0 f0 by simp
  then have e: "parseEpub exampleBrowser ''book.epub'' (\<lambda>path. None) ''OEBPS/content.opf''
                  exampleOpf
                = Inl ''Failed to parse EPUB: No readable chapters found in EPUB''"
    using t0 by blast
  show ?thesis using s l e example_parse example_spine by simp
qed

section \<open>Properties of the reading session\<close>

lemma initialPageIndex_nonneg: "0 \<le> initialPageIndex book n"
  by (simp add: initialPageIndex_def split: option.split)

lemma initialPageIndex_upper: "1 \<le> n \<Longrightarrow> initialPageIndex book n \<le> n - 1"
  by (auto simp: initialPageIndex_def min_def max_def split: option.split)

lemma tenPageSession_facts:
  "length (pages tenPageSession) = 10" "currentPageIndex tenPageSession = 0"
  "doublePageView tenPageSession = False" "isLoading tenPageSession = False"
  by code_simp+

lemma atPage_facts:
  "length (pages (atPage i d)) = 10" "currentPageIndex (atPage i d) = i"
  "doublePageView (atPage i d) = d" "isLoading (atPage i d) = False"
  by (simp_all add: atPage_def tenPageSession_facts)

lemma atPage_pages: "pages (atPage i d) \<noteq> []"
  using atPage_facts(1) [of i d] by auto

lemma tenPageSession_metadata: "metadata tenPageSession = Some exampleMetadata"
  by code_simp

lemma atPage_metadata: "metadata (atPage i d) \<noteq> None"
  by (simp add: atPage_def tenPageSession_metadata)

text \<open>
  The rounding of the product shows: for the double nearest to 0.7 and ten pages the index
  is 7, where the floor of the exact product is 6; for ninety pages it is 62.
\<close>

lemma initialPageIndex_rounds_before_floor:
  "roundDouble (7 / 10) = Some (progress seventyPercentBook)
   \<and> initialPageIndex seventyPercentBook 10 = 7
   \<and> \<lfloor>progress seventyPercentBook * 10\<rfloor> = 6
   \<and> initialPageIndex seventyPercentBook 90 = 62"
  by code_simp

text \<open>
  Claim C6. When the book opens successfully, the first page shown is taken from the saved
  page number (when it is greater than 1), else from \<open>Math.floor(progress * pageCount)\<close>, the
  floor of the double product (when the saved progress is positive), else it is 0; and it
  lies in \<open>[0, pageCount - 1]\<close>.
\<close>

theorem initial_index_from_saved_position:
  assumes "initializationRef st = Some (book_id book)" and "chapters \<noteq> []"
    and "st' = initReaderFinish env book (Inr (chapters, md)) settings st"
    and "n = int (length (pages st'))"
  shows "pages st' = splitIntoPages env chapters settings
         \<and> error st' = error st \<and> \<not> isLoading st'
         \<and> 0 \<le> currentPageIndex st' \<and> currentPageIndex st' \<le> n - 1
         \<and> currentPageIndex st'
             = (if 1 < currentPage book then max 0 (min (currentPage book - 1) (n - 1))
                else if 0 < progress book
                then (case jsTimes (progress book) (of_int n) of
                        Some x \<Rightarrow> max 0 (min \<lfloor>x\<rfloor> (n - 1))
                      | None \<Rightarrow> max 0 (n - 1))
                else 0)"
proof -
  let ?ps = "splitIntoPages env chapters settings"
  have st': "st' = st\<lparr>pages := ?ps, metadata := Some md,
                      currentPageIndex := initialPageIndex book (int (length ?ps)),
                      isLoading := False\<rparr>"
    using assms(1,2,3) by (simp add: initReaderFinish_def Let_def)
  have ne: "?ps \<noteq> []" using assms(2) by (rule splitIntoPages_nonempty)
  have n: "n = int (length ?ps)" using assms(4) st' by simp
  have n1: "1 \<le> n" using ne n by (cases ?ps) simp_all
  have up: "initialPageIndex book n \<le> n - 1" using n1 by (rule initialPageIndex_upper)
  have eq: "initialPageIndex book n
             = (if 1 < currentPage book then max 0 (min (currentPage book - 1) (n - 1))
                else if 0 < progress book
                then (case jsTimes (progress book) (of_int n) of
                        Some x \<Rightarrow> max 0 (min \<lfloor>x\<rfloor> (n - 1))
                      | None \<Rightarrow> max 0 (n - 1))
                else 0)"
    by (auto simp: initialPageIndex_def)
  show ?thesis using st' n up eq initialPageIndex_nonneg [of book n] by simp
qed

lemma twenty_pages:
  "length (splitIntoPages exampleBrowser (exampleChapters @ replicate 4 oneParagraph)
             largeSettings) = 20"
  by code_simp

lemma half_of_twenty: "roundDouble (1 / 2) = Some (1 / 2) \<and> jsTimes (1 / 2) 20 = Some 10"
  by code_simp

theorem initial_index_from_saved_position_witness:
  "initializationRef (initReaderBegin halfReadBook initialSession) = Some (book_id halfReadBook)
   \<and> exampleChapters @ replicate 4 oneParagraph \<noteq> []
   \<and> progress halfReadBook = 1 / 2 \<and> currentPage halfReadBook = 0
   \<and> roundDouble (1 / 2) = Some (1 / 2)
   \<and> length (pages (initReaderFinish exampleBrowser halfReadBook
        (Inr (exampleChapters @ replicate 4 oneParagraph, exampleMetadata)) largeSettings
        (initReaderBegin halfReadBook initialSession))) = 20
   \<and> currentPageIndex (initReaderFinish exampleBrowser halfReadBook
        (Inr (exampleChapters @ replicate 4 oneParagraph, exampleMetadata)) largeSettings
        (initReaderBegin halfReadBook initialSession)) = 10"
proof -
  let ?st = "initReaderBegin halfReadBook initialSession"
  let ?chs = "exampleChapters @ replicate 4 oneParagraph"
  let ?st' = "initReaderFinish exampleBrowser halfReadBook (Inr (?chs, exampleMetadata))
                largeSettings ?st"
  have r: "initializationRef ?st = Some (book_id halfReadBook)"
    by (simp add: initReaderBegin_def)
  have c: "?chs \<noteq> []" by (simp add: exampleChapters_def)
  note t = initial_index_from_saved_position
    [OF r c refl refl, of exampleBrowser exampleMetadata largeSettings]
  have len: "length (pages ?st') = 20" using t twenty_pages by simp
  have "currentPageIndex ?st' = 10" using t len half_of_twenty by (simp add: halfReadBook_def)
  then show ?thesis using r c len half_of_twenty by (simp add: halfReadBook_def)
qed

text \<open>
  Claim C3, amended. In a session with pages and a valid index, \<open>goToNext\<close> moves forward
  by the whole step (1, or 2 in double-page view) when that stays within the last index and
  otherwise leaves the session as it is; \<open>goToPrev\<close> does the same backwards; the index
  stays in \<open>[0, pageCount - 1]\<close>, and both are no-ops at the last and the first page. (The
  claim as stated has a clamped move two pages before the end: see the counterexample.)
\<close>

theorem navigation_moves_whole_step_or_stays:
  assumes "pages st \<noteq> []" and "0 \<le> currentPageIndex st"
    and "currentPageIndex st \<le> int (length (pages st)) - 1"
    and "k = (if doublePageView st then 2 else 1)"
  shows "goToNext st = st\<lparr>currentPageIndex :=
             (if currentPageIndex st + k \<le> int (length (pages st)) - 1
              then currentPageIndex st + k else currentPageIndex st)\<rparr>
         \<and> goToPrev st = st\<lparr>currentPageIndex :=
             (if 0 \<le> currentPageIndex st - k
              then currentPageIndex st - k else currentPageIndex st)\<rparr>
         \<and> 0 \<le> currentPageIndex (goToNext st)
         \<and> currentPageIndex (goToNext st) \<le> int (length (pages st)) - 1
         \<and> 0 \<le> currentPageIndex (goToPrev st)
         \<and> currentPageIndex (goToPrev st) \<le> int (length (pages st)) - 1
         \<and> (currentPageIndex st = int (length (pages st)) - 1 \<longrightarrow> goToNext st = st)
         \<and> (currentPageIndex st = 0 \<longrightarrow> goToPrev st = st)"
  using assms by (auto simp: goToNext_def goToPrev_def Let_def)

theorem navigation_moves_whole_step_or_stays_witness:
  "currentPageIndex (goToNext (atPage 3 False)) = 4
   \<and> currentPageIndex (goToNext (atPage 3 True)) = 5
   \<and> goToNext (atPage 9 False) = atPage 9 False
   \<and> goToNext (atPage 9 True) = atPage 9 True
   \<and> currentPageIndex (goToPrev (atPage 3 False)) = 2
   \<and> currentPageIndex (goToPrev (atPage 3 True)) = 1
   \<and> goToPrev (atPage 0 False) = atPage 0 False
   \<and> currentPageIndex (goToNext (atPage 8 True)) = 8"
proof -
  have a: "goToNext (atPage 3 False) = (atPage 3 False)\<lparr>currentPageIndex := 4\<rparr>"
    and a': "goToPrev (atPage 3 False) = (atPage 3 False)\<lparr>currentPageIndex := 2\<rparr>"
    using navigation_moves_whole_step_or_stays [of "atPage 3 False" 1]
    by (simp_all add: atPage_facts atPage_pages)
  have b: "goToNext (atPage 3 True) = (atPage 3 True)\<lparr>currentPageIndex := 5\<rparr>"
    and b': "goToPrev (atPage 3 True) = (atPage 3 True)\<lparr>currentPageIndex := 1\<rparr>"
    using navigation_moves_whole_step_or_stays [of "atPage 3 True" 2]
    by (simp_all add: atPage_facts atPage_pages)
  have c: "goToNext (atPage 9 False) = atPage 9 False"
    using navigation_moves_whole_step_or_stays [of "atPage 9 False" 1]
    by (simp add: atPage_facts atPage_pages)
  have d: "goToNext (atPage 9 True) = atPage 9 True"
    using navigation_moves_whole_step_or_stays [of "atPage 9 True" 2]
    by (simp add: atPage_facts atPage_pages)
  have e: "goToPrev (atPage 0 False) = atPage 0 False"
    using navigation_moves_whole_step_or_stays [of "atPage 0 False" 1]
    by (simp add: atPage_facts atPage_pages)
  have f: "goToNext (atPage 8 True) = (atPage 8 True)\<lparr>currentPageIndex := 8\<rparr>"
    using navigation_moves_whole_step_or_stays [of "atPage 8 True" 2]
    by (simp add: atPage_facts atPage_pages)
  show ?thesis by (simp add: a a' b b' c d e f atPage_facts)
qed

text \<open>
  Two pages before the end in double-page view, \<open>goToNext\<close> does not move at all, although
  the index is not the last one and a clamped advance would reach 9; likewise \<open>goToPrev\<close>
  at index 1.
\<close>

theorem goToNext_two_before_end_counterexample:
  "currentPageIndex (goToNext (atPage 8 True)) = 8
   \<and> int (length (pages (atPage 8 True))) - 1 = 9
   \<and> min (currentPageIndex (atPage 8 True) + 2) (int (length (pages (atPage 8 True))) - 1) = 9
   \<and> currentPageIndex (goToPrev (atPage 1 True)) = 1
   \<and> max (currentPageIndex (atPage 1 True) - 2) 0 = 0"
  by (simp add: goToNext_def goToPrev_def atPage_facts)

text \<open>
  Claim C10. Switching double-page view on at an odd index moves the index down by one
  (not below 0), so that it is even afterwards; switching it on at an even index, or
  switching it off, leaves the index as it is.
\<close>

theorem double_page_toggle_lands_on_even:
  "doublePageView (onDoublePageChange checked st) = checked
   \<and> pages (onDoublePageChange checked st) = pages st
   \<and> (checked \<and> odd (currentPageIndex st)
      \<longrightarrow> currentPageIndex (onDoublePageChange checked st) = max 0 (currentPageIndex st - 1)
          \<and> even (currentPageIndex (onDoublePageChange checked st)))
   \<and> (checked \<and> odd (currentPageIndex st) \<and> 0 \<le> currentPageIndex st
      \<longrightarrow> currentPageIndex (onDoublePageChange checked st) = currentPageIndex st - 1)
   \<and> (\<not> checked \<or> even (currentPageIndex st)
      \<longrightarrow> currentPageIndex (onDoublePageChange checked st) = currentPageIndex st)"
proof -
  have m: "\<bar>currentPageIndex st\<bar> mod 2 = currentPageIndex st mod 2"
    by presburger
  have z: "currentPageIndex st = 0 \<Longrightarrow> currentPageIndex st mod 2 = 0"
    by simp
  have r: "jsRem (currentPageIndex st) 2 \<noteq> 0 \<longleftrightarrow> odd (currentPageIndex st)"
    using z by (auto simp: jsRem_def m sgn_if odd_iff_mod_2_eq_one)
  have e: "odd (currentPageIndex st) \<Longrightarrow> even (max 0 (currentPageIndex st - 1))"
    by (auto simp: max_def)
  have p: "odd (currentPageIndex st) \<Longrightarrow> 0 \<le> currentPageIndex st
             \<Longrightarrow> max 0 (currentPageIndex st - 1) = currentPageIndex st - 1"
    by (cases "currentPageIndex st = 0") (simp_all add: max_def)
  show ?thesis using r e p by (auto simp: onDoublePageChange_def Let_def)
qed

theorem double_page_toggle_lands_on_even_witness:
  "currentPageIndex (onDoublePageChange True (atPage 3 False)) = 2
   \<and> doublePageView (onDoublePageChange True (atPage 3 False))
   \<and> currentPageIndex (onDoublePageChange True (atPage 4 False)) = 4
   \<and> currentPageIndex (onDoublePageChange False (atPage 3 True)) = 3"
  using double_page_toggle_lands_on_even [of True "atPage 3 False"]
    double_page_toggle_lands_on_even [of True "atPage 4 False"]
    double_page_toggle_lands_on_even [of False "atPage 3 True"]
  by (simp add: atPage_facts)

lemma sixteen_pages:
  "length (splitIntoPages exampleBrowser exampleChapters darkLargeSettings) = 16"
  by code_simp

lemma changeTextSettings_clears_mark:
  assumes "pages st \<noteq> []" and "metadata st \<noteq> None"
    and "layoutChanged (textSettings st) settings"
  shows "initializationRef (changeTextSettings book settings st) = None"
  using assms
  by (simp add: changeTextSettings_def initEffect_def initReaderBegin_def resplitEffect_def)

lemma initReaderFinish_completes:
  assumes "initializationRef s = Some (book_id book)" and "chapters \<noteq> []"
  shows "initReaderFinish env book (Inr (chapters, md)) settings s
           = s\<lparr>pages := splitIntoPages env chapters settings, metadata := Some md,
                currentPageIndex :=
                  initialPageIndex book (int (length (splitIntoPages env chapters settings))),
                isLoading := False\<rparr>"
  using assms by (simp add: initReaderFinish_def Let_def)

text \<open>
  Claim C2, amended. A change of font size, font family, line height or margin while pages
  are shown clears the initialisation mark, which is what lets the reader initialise again;
  no fraction of the current index is kept. An initialisation that runs to its end (the
  mark still names the book, the archive parsed anew gives a chapter) shows the pages of the
  parsed chapters under its settings and takes the index from the book record (as in claim
  C6), within \<open>[0, pageCount - 1]\<close>, the same whatever the index was before.
\<close>

theorem layout_change_reinitialises:
  assumes "pages st \<noteq> []" and "metadata st \<noteq> None"
    and "layoutChanged (textSettings st) settings"
    and "initializationRef s = Some (book_id book)" and "chapters \<noteq> []"
    and "s' = initReaderFinish env book (Inr (chapters, md)) settings' s"
  shows "initializationRef (changeTextSettings book settings st) = None
         \<and> initEffect book (changeTextSettings book settings st)
             = initReaderBegin book (changeTextSettings book settings st)
         \<and> pages s' = splitIntoPages env chapters settings'
         \<and> currentPageIndex s' = initialPageIndex book (int (length (pages s')))
         \<and> 0 \<le> currentPageIndex s'
         \<and> currentPageIndex s' \<le> int (length (pages s')) - 1
         \<and> currentPageIndex
               (initReaderFinish env book (Inr (chapters, md)) settings'
                  (s\<lparr>currentPageIndex := j\<rparr>))
             = currentPageIndex s'"
proof -
  let ?ps = "splitIntoPages env chapters settings'"
  have m: "initializationRef (changeTextSettings book settings st) = None"
    using assms(1,2,3) by (rule changeTextSettings_clears_mark)
  have g: "initEffect book (changeTextSettings book settings st)
             = initReaderBegin book (changeTextSettings book settings st)"
    using m by (simp add: initEffect_def)
  have s': "s' = s\<lparr>pages := ?ps, metadata := Some md,
                   currentPageIndex := initialPageIndex book (int (length ?ps)),
                   isLoading := False\<rparr>"
    using assms(4,5,6) by (simp add: initReaderFinish_completes)
  have rj: "initializationRef (s\<lparr>currentPageIndex := j\<rparr>) = Some (book_id book)"
    using assms(4) by simp
  have sj: "currentPageIndex
               (initReaderFinish env book (Inr (chapters, md)) settings'
                  (s\<lparr>currentPageIndex := j\<rparr>))
             = initialPageIndex book (int (length ?ps))"
    using initReaderFinish_completes [OF rj assms(5), of env md settings'] by simp
  have ne: "?ps \<noteq> []" using assms(5) by (rule splitIntoPages_nonempty)
  then have n1: "1 \<le> int (length ?ps)" by (cases ?ps) simp_all
  have up: "initialPageIndex book (int (length ?ps)) \<le> int (length ?ps) - 1"
    using n1 by (rule initialPageIndex_upper)
  show ?thesis
    using m g s' sj up initialPageIndex_nonneg [of book "int (length ?ps)"] by simp
qed

lemma largeSettings_changes_layout:
  "layoutChanged (textSettings (atPage 4 False)) largeSettings"
  by code_simp

lemma afterThemeChange_facts:
  "initializationRef (afterThemeChange freshBook) = Some (book_id freshBook)"
  "initializationRef (afterThemeChange savedBook) = Some (book_id savedBook)"
  "currentPageIndex (afterThemeChange freshBook) = 4"
  "length (pages (afterThemeChange freshBook)) = 10"
  by code_simp+

lemma exampleChapters_nonempty: "exampleChapters \<noteq> []"
  by (simp add: exampleChapters_def)

theorem layout_change_reinitialises_witness:
  "pages (atPage 4 False) \<noteq> [] \<and> metadata (atPage 4 False) \<noteq> None
   \<and> layoutChanged (textSettings (atPage 4 False)) largeSettings
   \<and> initializationRef (afterFontChange freshBook) = None
   \<and> initializationRef (afterThemeChange freshBook) = Some (book_id freshBook)
   \<and> exampleChapters \<noteq> []
   \<and> currentPageIndex (afterThemeChange freshBook) = 4
   \<and> length (pages (reinitialised freshBook)) = 16
   \<and> currentPageIndex (reinitialised freshBook) = 0"
proof -
  note t = layout_change_reinitialises
      [where st = "atPage 4 False" and settings = largeSettings and book = freshBook
         and s = "afterThemeChange freshBook" and chapters = exampleChapters
         and env = exampleBrowser and md = exampleMetadata and settings' = darkLargeSettings,
       OF atPage_pages atPage_metadata largeSettings_changes_layout
          afterThemeChange_facts(1) exampleChapters_nonempty refl]
  have a: "initializationRef (afterFontChange freshBook) = None"
    using t by (simp add: afterFontChange_def)
  have l: "length (pages (reinitialised freshBook)) = 16"
    using t sixteen_pages by (simp add: reinitialised_def)
  have "currentPageIndex (reinitialised freshBook) = initialPageIndex freshBook 16"
    using t l by (simp add: reinitialised_def)
  then have i: "currentPageIndex (reinitialised freshBook) = 0"
    by (simp add: initialPageIndex_def freshBook_def)
  show ?thesis
    using a l i atPage_pages atPage_metadata largeSettings_changes_layout
      afterThemeChange_facts exampleChapters_nonempty
    by simp
qed

text \<open>
  At index 4 of 10 pages the font size is changed and then the theme; the initialisation
  that follows gives sixteen pages. The index is then 0 for the book record the session was
  opened with, and 4 for a book record that holds the last save: neither is 8, and neither
  is within one page of the old fraction.
\<close>

theorem layout_change_loses_position_counterexample:
  "currentPageIndex (atPage 4 False) = 4 \<and> length (pages (atPage 4 False)) = 10
   \<and> length (pages (reinitialised freshBook)) = 16
   \<and> currentPageIndex (reinitialised freshBook) = 0
   \<and> (1 / 16 :: rat) < \<bar>0 / 16 - 4 / 10\<bar>
   \<and> length (pages (reinitialised savedBook)) = 16
   \<and> currentPageIndex (reinitialised savedBook) = 4
   \<and> (1 / 16 :: rat) < \<bar>4 / 16 - 4 / 10\<bar>"
proof -
  have r: "\<And>book. initializationRef (afterThemeChange book) = Some (book_id book)
             \<Longrightarrow> reinitialised book
                  = (afterThemeChange book)
                      \<lparr>pages := splitIntoPages exampleBrowser exampleChapters darkLargeSettings,
                       metadata := Some exampleMetadata,
                       currentPageIndex := initialPageIndex book
                          (int (length (splitIntoPages exampleBrowser exampleChapters
                                          darkLargeSettings))),
                       isLoading := False\<rparr>"
    unfolding reinitialised_def
    by (rule initReaderFinish_completes) (simp_all add: exampleChapters_nonempty)
  have f: "initialPageIndex freshBook 16 = 0"
    by (simp add: initialPageIndex_def freshBook_def)
  have s: "initialPageIndex savedBook 16 = 4"
    by (simp add: initialPageIndex_def savedBook_def)
  show ?thesis
    using f s r [OF afterThemeChange_facts(1)] r [OF afterThemeChange_facts(2)]
    by (simp add: sixteen_pages atPage_facts)
qed

text \<open>
  The order of the two effects, for the record: when the next change of settings is again one
  of size, family, line height or margin, the initialisation it starts finds the mark
  cleared once more and is abandoned at line 392, with the loading state left on.
\<close>

lemma second_layout_change_abandons:
  "isLoading
     (initReaderFinish exampleBrowser freshBook (Inr (exampleChapters, exampleMetadata))
        (largeSettings\<lparr>fontSize := 30\<rparr>)
        (changeTextSettings freshBook (largeSettings\<lparr>fontSize := 30\<rparr>)
           (afterFontChange freshBook)))
   \<and> length (pages
        (initReaderFinish exampleBrowser freshBook (Inr (exampleChapters, exampleMetadata))
           (largeSettings\<lparr>fontSize := 30\<rparr>)
           (changeTextSettings freshBook (largeSettings\<lparr>fontSize := 30\<rparr>)
              (afterFontChange freshBook)))) = 10"
  by code_simp

section \<open>Properties of progress saving\<close>





lemma step_index_nonneg:
  assumes "0 \<le> currentPageIndex st"
  shows "0 \<le> currentPageIndex (step env book ev st)"
proof (cases ev)
  case InitBegin
  then show ?thesis using assms by (simp add: initReaderBegin_def)
next
  case (InitUrlFailed msg)
  then show ?thesis using assms by (simp add: initReaderCatch_def)
next
  case (InitFinish outcome settings)
  then show ?thesis using assms initialPageIndex_nonneg
    by (auto simp: initReaderFinish_def initReaderCatch_def Let_def
        split: sum.splits prod.splits)
next
  case Retry
  then show ?thesis using assms by (simp add: retry_def)
next
  case (SetTextSettings x3)
  then show ?thesis using assms by simp
next
  case (ChangeTextSettings settings)
  then show ?thesis using assms
    by (simp add: changeTextSettings_def initEffect_def initReaderBegin_def
        resplitEffect_def Let_def)
next
  case ResplitEffect
  then show ?thesis using assms by (simp add: resplitEffect_def)
next
  case GoToNext
  then show ?thesis using assms by (simp add: goToNext_def Let_def)
next
  case GoToPrev
  then show ?thesis using assms by (simp add: goToPrev_def Let_def)
next
  case (DoublePageChange x7)
  then show ?thesis using assms by (simp add: onDoublePageChange_def Let_def)
qed

lemma fold_step_index_nonneg:
  "0 \<le> currentPageIndex st \<Longrightarrow> 0 \<le> currentPageIndex (fold (step env book) evs st)"
  by (induction evs arbitrary: st) (simp_all add: step_index_nonneg)

lemma run_index_nonneg: "0 \<le> currentPageIndex (run env book evs)"
  unfolding run_def by (rule fold_step_index_nonneg) (simp add: initialSession_def)

lemma saveProgress_range:
  assumes "saveProgress cb book i n = Some call"
  shows "0 \<le> sc_progress call \<and> sc_progress call \<le> 1 \<and> sc_currentPage call = i + 1
         \<and> cb \<and> n \<noteq> 0"
  using assms by (auto simp: saveProgress_def split: if_splits)

lemma saveProgressImmediately_range:
  assumes "saveProgressImmediately cb book i n = Some call"
  shows "0 \<le> sc_progress call \<and> sc_progress call \<le> 1 \<and> sc_currentPage call = i + 1
         \<and> cb \<and> n \<noteq> 0"
  using assms by (auto simp: saveProgressImmediately_def split: if_splits)

text \<open>
  Claim C9. In every state a session can reach, each of the three places that save either
  makes no call or passes a progress in \<open>[0, 1]\<close> and a page number of at least 1; none
  makes a call when there is no page or no callback, and neither save function does when
  the page count is 0 or the callback is missing.
\<close>

theorem sink_calls_well_formed:
  "(pageChangeEffect cb book (run env book evs) = Some call
      \<or> handleBackToLibrary cb book (run env book evs) = Some call
      \<or> unmountEffect cb book (run env book evs) = Some call
    \<longrightarrow> 0 \<le> sc_progress call \<and> sc_progress call \<le> 1 \<and> 1 \<le> sc_currentPage call)
   \<and> (\<not> cb \<or> pages (run env book evs) = []
    \<longrightarrow> pageChangeEffect cb book (run env book evs) = None
        \<and> handleBackToLibrary cb book (run env book evs) = None
        \<and> unmountEffect cb book (run env book evs) = None)
   \<and> (\<not> cb \<or> totalPages = 0
    \<longrightarrow> saveProgress cb book pageIndex totalPages = None
        \<and> saveProgressImmediately cb book pageIndex totalPages = None)"
proof -
  let ?st = "run env book evs"
  have idx: "0 \<le> currentPageIndex ?st" by (rule run_index_nonneg)
  have a: "pageChangeEffect cb book ?st = Some call
      \<or> handleBackToLibrary cb book ?st = Some call
      \<or> unmountEffect cb book ?st = Some call
    \<longrightarrow> 0 \<le> sc_progress call \<and> sc_progress call \<le> 1 \<and> 1 \<le> sc_currentPage call"
  proof
    assume "pageChangeEffect cb book ?st = Some call
      \<or> handleBackToLibrary cb book ?st = Some call
      \<or> unmountEffect cb book ?st = Some call"
    then have "saveProgress cb book (currentPageIndex ?st) (int (length (pages ?st))) = Some call
       \<or> saveProgressImmediately cb book (currentPageIndex ?st) (int (length (pages ?st)))
           = Some call"
      by (auto simp: pageChangeEffect_def handleBackToLibrary_def unmountEffect_def
          split: if_splits)
    then have "0 \<le> sc_progress call \<and> sc_progress call \<le> 1
               \<and> sc_currentPage call = currentPageIndex ?st + 1"
      using saveProgress_range saveProgressImmediately_range by blast
    then show "0 \<le> sc_progress call \<and> sc_progress call \<le> 1 \<and> 1 \<le> sc_currentPage call"
      using idx by simp
  qed
  have b: "\<not> cb \<or> pages ?st = []
    \<longrightarrow> pageChangeEffect cb book ?st = None
        \<and> handleBackToLibrary cb book ?st = None
        \<and> unmountEffect cb book ?st = None"
    by (auto simp: pageChangeEffect_def handleBackToLibrary_def unmountEffect_def
        saveProgress_def saveProgressImmediately_def)
  have c: "\<not> cb \<or> totalPages = 0
    \<longrightarrow> saveProgress cb book pageIndex totalPages = None
        \<and> saveProgressImmediately cb book pageIndex totalPages = None"
    by (auto simp: saveProgress_def saveProgressImmediately_def)
  show ?thesis using a b c by blast
qed

lemma run_example:
  "run exampleBrowser freshBook
     [InitBegin, InitFinish (Inr (exampleChapters, exampleMetadata)) defaultSettings,
      GoToNext, GoToNext, GoToNext] = atPage 3 False"
  by code_simp

theorem sink_calls_well_formed_witness:
  "pageChangeEffect True freshBook
      (run exampleBrowser freshBook
        [InitBegin, InitFinish (Inr (exampleChapters, exampleMetadata)) defaultSettings,
         GoToNext, GoToNext, GoToNext])
     = Some \<lparr>sc_bookId = ''book'', sc_progress = 3 / 10, sc_currentCfi = ''page-4'',
             sc_currentPage = 4\<rparr>
   \<and> (0::rat) \<le> 3 / 10 \<and> (3 / 10 :: rat) \<le> 1 \<and> (1::int) \<le> 4
   \<and> pages (run exampleBrowser freshBook []) = []
   \<and> pageChangeEffect True freshBook (run exampleBrowser freshBook []) = None
   \<and> handleBackToLibrary True freshBook (run exampleBrowser freshBook []) = None
   \<and> unmountEffect True freshBook (run exampleBrowser freshBook []) = None
   \<and> saveProgress False freshBook 3 10 = None
   \<and> saveProgressImmediately True freshBook 0 0 = None"
proof -
  let ?evs = "[InitBegin, InitFinish (Inr (exampleChapters, exampleMetadata)) defaultSettings,
         GoToNext, GoToNext, GoToNext]"
  let ?call = "\<lparr>sc_bookId = ''book'', sc_progress = 3 / 10, sc_currentCfi = ''page-4'',
             sc_currentPage = 4\<rparr>"
  have "pageChangeEffect True freshBook (atPage 3 False) = Some ?call"
    by (simp add: pageChangeEffect_def atPage_facts saveProgress_def freshBook_def
        showInt_def digitChar_def)
  then have e: "pageChangeEffect True freshBook (run exampleBrowser freshBook ?evs) = Some ?call"
    by (simp only: run_example)
  have p: "pages (run exampleBrowser freshBook []) = []"
    by (simp add: run_def initialSession_def)
  have r: "0 \<le> sc_progress ?call \<and> sc_progress ?call \<le> 1 \<and> 1 \<le> sc_currentPage ?call"
    using sink_calls_well_formed
      [where cb = True and book = freshBook and env = exampleBrowser and evs = ?evs
         and call = ?call] e
    by blast
  have n: "pageChangeEffect True freshBook (run exampleBrowser freshBook []) = None
        \<and> handleBackToLibrary True freshBook (run exampleBrowser freshBook []) = None
        \<and> unmountEffect True freshBook (run exampleBrowser freshBook []) = None"
    using sink_calls_well_formed
      [where cb = True and book = freshBook and env = exampleBrowser and evs = "[]"] p
    by blast
  have s1: "saveProgress False freshBook 3 10 = None"
    using sink_calls_well_formed [where cb = False and totalPages = 10] by blast
  have s2: "saveProgressImmediately True freshBook 0 0 = None"
    using sink_calls_well_formed [where cb = True and totalPages = 0] by blast
  show ?thesis using e p r n s1 s2 by simp
qed

end
